theory Spec2Isabelle
  imports Main "HOL-Library.Log_Nat" "HOL-Library.Word"
begin

section \<open>Python values\<close>

text \<open>
  A Python \<open>str\<close> is modelled as its UTF-8 encoding, a \<open>char list\<close>. The source only
  concatenates strings, tests them for emptiness and deletes the ASCII characters
  \<open>.\<close> and \<open>-\<close>, and these operations agree on code points and on UTF-8 bytes.
  The letters outside ASCII that occur in the messages of the source are written
  as their two UTF-8 bytes.
\<close>

definition a_acute :: string where "a_acute = [CHR 0xC3, CHR 0xA1]"
definition a_tilde :: string where "a_tilde = [CHR 0xC3, CHR 0xA3]"
definition c_cedil :: string where "c_cedil = [CHR 0xC3, CHR 0xA7]"
definition e_acute :: string where "e_acute = [CHR 0xC3, CHR 0xA9]"
definition o_acute :: string where "o_acute = [CHR 0xC3, CHR 0xB3]"

text \<open>
  A Python \<open>float\<close> is an IEEE 754 binary64 number. A finite one is modelled by the
  rational number it denotes; the two zeros are identified (the source never
  distinguishes them: both are falsy and both truncate to the integer 0).
\<close>

datatype pyfloat = Fin rat | PosInf | NegInf | NaN

datatype pyval =
    PNone
  | PBool bool
  | PInt int
  | PFloat pyfloat
  | PStr string
  | PList "pyval list"
  | PDict "(string \<times> pyval) list"

type_synonym pydict = "(string \<times> pyval) list"

text \<open>
  Exceptions. Only the classes that the handlers of the source tell apart are kept
  apart: \<open>requests.exceptions.RequestException\<close> (with its subclasses) against every
  other subclass of \<open>Exception\<close>. \<open>PlainException\<close> is \<open>Exception\<close> itself, the class
  the source raises. Every exception carries its message, \<open>str(e)\<close>.
\<close>

datatype exc_class =
    RequestException
  | ValueError
  | TypeError
  | AttributeError
  | OverflowError
  | ZeroDivisionError
  | KeyError
  | PlainException
  | OtherException

datatype exc = Exc exc_class string

fun exc_cls :: "exc \<Rightarrow> exc_class" where
  "exc_cls (Exc c m) = c"

fun str_exc :: "exc \<Rightarrow> string" where
  "str_exc (Exc c m) = m"

fun type_name :: "pyval \<Rightarrow> string" where
  "type_name PNone = ''NoneType''"
| "type_name (PBool b) = ''bool''"
| "type_name (PInt i) = ''int''"
| "type_name (PFloat f) = ''float''"
| "type_name (PStr s) = ''str''"
| "type_name (PList l) = ''list''"
| "type_name (PDict d) = ''dict''"

text \<open>Truth value testing, as \<open>not x\<close> and \<open>if x\<close> do it.\<close>

fun truthy :: "pyval \<Rightarrow> bool" where
  "truthy PNone = False"
| "truthy (PBool b) = b"
| "truthy (PInt i) = (i \<noteq> 0)"
| "truthy (PFloat f) = (f \<noteq> Fin 0)"
| "truthy (PStr s) = (s \<noteq> [])"
| "truthy (PList l) = (l \<noteq> [])"
| "truthy (PDict d) = (d \<noteq> [])"

text \<open>\<open>d.get(k, default)\<close> on a dictionary, and \<open>x.get(k, default)\<close> on any value.\<close>

definition dict_get :: "pydict \<Rightarrow> string \<Rightarrow> pyval \<Rightarrow> pyval" where
  "dict_get d k dflt = (case map_of d k of None \<Rightarrow> dflt | Some v \<Rightarrow> v)"

definition no_attribute :: "pyval \<Rightarrow> string \<Rightarrow> exc" where
  "no_attribute v a =
     Exc AttributeError ([CHR 0x27] @ type_name v @ [CHR 0x27] @ '' object has no attribute ''
                         @ [CHR 0x27] @ a @ [CHR 0x27])"

fun py_get :: "pyval \<Rightarrow> string \<Rightarrow> pyval \<Rightarrow> exc + pyval" where
  "py_get (PDict d) k dflt = Inr (dict_get d k dflt)"
| "py_get v k dflt = Inl (no_attribute v ''get'')"

section \<open>Floating-point arithmetic\<close>

text \<open>
  \<open>floor_log2 x\<close> is the exponent \<open>e\<close> with \<open>2 ^ e \<le> x < 2 ^ (e + 1)\<close>, for \<open>x > 0\<close>.
\<close>

definition floor_log2 :: "rat \<Rightarrow> int" where
  "floor_log2 x =
     (let (p, q) = quotient_of x; d = bitlen p - bitlen q
      in if 2 powi d \<le> x then d else d - 1)"

definition round_half_even :: "rat \<Rightarrow> int" where
  "round_half_even x =
     (let f = \<lfloor>x\<rfloor>; r = x - of_int f
      in if r < 1 / 2 then f
         else if 1 / 2 < r then f + 1
         else if even f then f else f + 1)"

text \<open>
  Rounding of an exact result to binary64, to nearest with ties to even: 53
  significant bits, the least exponent of a normal number is \<open>-1022\<close> (below it the
  spacing stays \<open>2 ^ -1074\<close>), and a result that rounds to \<open>2 ^ 1024\<close> or beyond is
  an infinity.
\<close>

definition round_double :: "rat \<Rightarrow> pyfloat" where
  "round_double x =
     (if x = 0 then Fin 0
      else let q = 2 powi (max (floor_log2 \<bar>x\<bar>) (- 1022) - 52);
               y = of_int (round_half_even (x / q)) * q
           in if 2 ^ 1024 \<le> \<bar>y\<bar> then (if 0 < x then PosInf else NegInf) else Fin y)"

text \<open>The product and the quotient of two floats (IEEE 754; Python raises on a zero divisor).\<close>

fun float_sign :: "pyfloat \<Rightarrow> int" where
  "float_sign (Fin x) = (if 0 < x then 1 else if x < 0 then - 1 else 0)"
| "float_sign PosInf = 1"
| "float_sign NegInf = - 1"
| "float_sign NaN = 0"

fun float_mul :: "pyfloat \<Rightarrow> pyfloat \<Rightarrow> pyfloat" where
  "float_mul (Fin x) (Fin y) = round_double (x * y)"
| "float_mul NaN b = NaN"
| "float_mul a NaN = NaN"
| "float_mul a b =
     (let s = float_sign a * float_sign b
      in if s = 0 then NaN else if 0 < s then PosInf else NegInf)"

fun float_truediv :: "pyfloat \<Rightarrow> pyfloat \<Rightarrow> exc + pyfloat" where
  "float_truediv a (Fin y) =
     (if y = 0 then Inl (Exc ZeroDivisionError ''float division by zero'')
      else case a of
             Fin x \<Rightarrow> Inr (round_double (x / y))
           | NaN \<Rightarrow> Inr NaN
           | PosInf \<Rightarrow> Inr (if 0 < y then PosInf else NegInf)
           | NegInf \<Rightarrow> Inr (if 0 < y then NegInf else PosInf))"
| "float_truediv NaN b = Inr NaN"
| "float_truediv a NaN = Inr NaN"
| "float_truediv (Fin x) b = Inr (Fin 0)"
| "float_truediv a b = Inr NaN"

text \<open>
  \<open>float(i)\<close> and \<open>a / b\<close> on Python integers: both are correctly rounded, and both
  raise \<open>OverflowError\<close> where the rounded result would be an infinity.
\<close>

definition int_to_float :: "int \<Rightarrow> exc + pyfloat" where
  "int_to_float i =
     (case round_double (of_int i) of
        Fin y \<Rightarrow> Inr (Fin y)
      | _ \<Rightarrow> Inl (Exc OverflowError ''int too large to convert to float''))"

definition int_truediv :: "int \<Rightarrow> int \<Rightarrow> exc + pyfloat" where
  "int_truediv a b =
     (if b = 0 then Inl (Exc ZeroDivisionError ''division by zero'')
      else case round_double (of_int a / of_int b) of
             Fin y \<Rightarrow> Inr (Fin y)
           | _ \<Rightarrow> Inl (Exc OverflowError ''integer division result too large for a float''))"

text \<open>\<open>int(f)\<close> on a float: truncation toward zero.\<close>

fun float_to_int :: "pyfloat \<Rightarrow> exc + int" where
  "float_to_int (Fin x) = Inr (if 0 \<le> x then \<lfloor>x\<rfloor> else \<lceil>x\<rceil>)"
| "float_to_int NaN = Inl (Exc ValueError ''cannot convert float NaN to integer'')"
| "float_to_int f = Inl (Exc OverflowError ''cannot convert float infinity to integer'')"

text \<open>Sequencing of two steps, the first of which may raise.\<close>

definition bind_exc :: "exc + 'a \<Rightarrow> ('a \<Rightarrow> exc + 'b) \<Rightarrow> exc + 'b" where
  "bind_exc m f = (case m of Inl e \<Rightarrow> Inl e | Inr v \<Rightarrow> f v)"

text \<open>The operator \<open>/\<close> on two values: true division of numbers, \<open>TypeError\<close> otherwise.\<close>

datatype number = NInt int | NFloat pyfloat

fun as_number :: "pyval \<Rightarrow> number option" where
  "as_number (PBool b) = Some (NInt (if b then 1 else 0))"
| "as_number (PInt i) = Some (NInt i)"
| "as_number (PFloat f) = Some (NFloat f)"
| "as_number v = None"

fun number_to_float :: "number \<Rightarrow> exc + pyfloat" where
  "number_to_float (NInt i) = int_to_float i"
| "number_to_float (NFloat f) = Inr f"

definition py_truediv :: "pyval \<Rightarrow> pyval \<Rightarrow> exc + pyval" where
  "py_truediv a b =
     (case (as_number a, as_number b) of
        (Some (NInt x), Some (NInt y)) \<Rightarrow> bind_exc (int_truediv x y) (\<lambda>r. Inr (PFloat r))
      | (Some x, Some y) \<Rightarrow>
          bind_exc (number_to_float x) (\<lambda>f.
          bind_exc (number_to_float y) (\<lambda>g.
          bind_exc (float_truediv f g) (\<lambda>r. Inr (PFloat r))))
      | _ \<Rightarrow>
          Inl (Exc TypeError (''unsupported operand type(s) for /: '' @ [CHR 0x27] @ type_name a
                              @ [CHR 0x27] @ '' and '' @ [CHR 0x27] @ type_name b @ [CHR 0x27])))"

section \<open>Strings\<close>

text \<open>\<open>str(i)\<close> on an integer: its decimal digits.\<close>

definition digit_char :: "nat \<Rightarrow> char" where
  "digit_char d = char_of (of_char (CHR ''0'') + d)"

fun dec_digits :: "nat \<Rightarrow> string" where
  "dec_digits n = (if n < 10 then [digit_char n] else dec_digits (n div 10) @ [digit_char (n mod 10)])"

definition str_int :: "int \<Rightarrow> string" where
  "str_int i = (if i < 0 then CHR ''-'' # dec_digits (nat (- i)) else dec_digits (nat i))"

text \<open>\<open>bytes.hex()\<close> (two lower-case digits a byte) and \<open>str.upper()\<close> on ASCII letters.\<close>

definition hex_char :: "nat \<Rightarrow> char" where
  "hex_char d = (if d < 10 then digit_char d else char_of (of_char (CHR ''a'') + (d - 10)))"

definition bytes_hex :: "8 word list \<Rightarrow> string" where
  "bytes_hex bs = concat (map (\<lambda>b. [hex_char (unat b div 16), hex_char (unat b mod 16)]) bs)"

definition upper_char :: "char \<Rightarrow> char" where
  "upper_char c =
     (let n = (of_char c :: nat)
      in if of_char (CHR ''a'') \<le> n \<and> n \<le> of_char (CHR ''z'') then char_of (n - 32) else c)"

definition str_upper :: "string \<Rightarrow> string" where
  "str_upper s = map upper_char s"

text \<open>
  \<open>x.replace(c, '')\<close> for a one-character \<open>c\<close>: defined on strings only; every other
  value of the model has no attribute \<open>replace\<close>.
\<close>

fun py_remove_char :: "pyval \<Rightarrow> char \<Rightarrow> exc + pyval" where
  "py_remove_char (PStr s) c = Inr (PStr (filter (\<lambda>x. x \<noteq> c) s))"
| "py_remove_char v c = Inl (no_attribute v ''replace'')"

section \<open>The client and its environment\<close>

text \<open>
  \<open>class CashtimeAPI\<close>: the two credential fields set by \<open>__init__\<close>. The public key
  is \<open>Optional[str]\<close>.
\<close>

record client =
  secret_key :: string
  public_key :: "string option"

definition API_URL :: string where
  "API_URL = ''https://api.cashtime.com.br/v1''"

text \<open>
  A \<open>requests.Response\<close>, as far as the source reads it: the status code, the body
  text, and what \<open>response.json()\<close> does (it returns the decoded body or raises).
  \<open>response.ok\<close> is the property of the \<open>requests\<close> library: false exactly for
  the client and server error statuses 400 to 599.
\<close>

record response =
  status_code :: int
  body_text :: string
  json :: "exc + pyval"

definition ok :: "response \<Rightarrow> bool" where
  "ok r = (\<not> (400 \<le> status_code r \<and> status_code r < 600))"

type_synonym headers = "(string \<times> string) list"

text \<open>
  Everything the module reads from outside itself: the clock, the random source,
  the process environment, the HTTP transport, and three conversions of the Python
  library that the development does not spell out.
  \<^item> \<open>clock_seconds\<close> is \<open>int(datetime.now().timestamp())\<close> as read by \<open>_generate_txid\<close>;
  \<^item> \<open>urandom n\<close> is \<open>os.urandom(n)\<close>;
  \<^item> \<open>expires_at m\<close> is \<open>datetime.now() + timedelta(minutes=m)\<close>, rendered by
    \<open>isoformat()\<close>; the sum raises for an \<open>m\<close> that is no number or is out of range;
  \<^item> \<open>created_at\<close> is \<open>datetime.now().isoformat()\<close> as read when the result is built;
  \<^item> \<open>float_of_str s\<close> is \<open>float(s)\<close> on a string: the float, or the exception it raises;
  \<^item> \<open>json_dumps v\<close> is \<open>json.dumps(v, indent=2)\<close>, which the source calls for its two
    log lines: the text, or the exception it raises (an integer beyond the digit
    limit of the interpreter);
  \<^item> \<open>http_post url headers body\<close> and \<open>http_get url headers\<close> are \<open>requests.post\<close>
    and \<open>requests.get\<close> (with the fixed timeout of 30): a response, or an exception;
  \<^item> \<open>environ\<close> is \<open>os.environ\<close>.
\<close>

record world =
  clock_seconds :: int
  urandom :: "nat \<Rightarrow> 8 word list"
  expires_at :: "pyval \<Rightarrow> exc + string"
  created_at :: string
  float_of_str :: "string \<Rightarrow> exc + pyfloat"
  json_dumps :: "pyval \<Rightarrow> exc + string"
  http_post :: "string \<Rightarrow> headers \<Rightarrow> pyval \<Rightarrow> exc + response"
  http_get :: "string \<Rightarrow> headers \<Rightarrow> exc + response"
  environ :: "string \<rightharpoonup> string"

text \<open>The network calls a run of an operation makes, in order.\<close>

datatype http_call =
    POST string headers pyval
  | GET string headers

section \<open>Construction\<close>

text \<open>\<open>not s\<close> on an \<open>Optional[str]\<close>: \<open>None\<close> and the empty string are falsy.\<close>

fun truthy_opt :: "string option \<Rightarrow> bool" where
  "truthy_opt None = False"
| "truthy_opt (Some s) = (s \<noteq> [])"

definition secret_key_missing :: string where
  "secret_key_missing =
     ''CASHTIME_SECRET_KEY n'' @ a_tilde @ ''o encontrada nas vari'' @ a_acute @ ''veis de ambiente''"

definition secret_from_environ :: "world \<Rightarrow> exc + string" where
  "secret_from_environ w =
     (case environ w ''CASHTIME_SECRET_KEY'' of
        None \<Rightarrow> Inl (Exc ValueError secret_key_missing)
      | Some s \<Rightarrow> if s = [] then Inl (Exc ValueError secret_key_missing) else Inr s)"

definition create_cashtime_api :: "world \<Rightarrow> string option \<Rightarrow> string option \<Rightarrow> exc + client" where
  "create_cashtime_api w secret_key_arg public_key_arg =
     bind_exc
       (case secret_key_arg of
          None \<Rightarrow> secret_from_environ w
        | Some s \<Rightarrow> if s = [] then secret_from_environ w else Inr s)
       (\<lambda>sk.
          let pk = (if \<not> truthy_opt public_key_arg then environ w ''CASHTIME_PUBLIC_KEY''
                    else public_key_arg)
          in Inr \<lparr>secret_key = sk, public_key = pk\<rparr>)"

section \<open>Headers and transaction identifier\<close>

definition get_headers :: "client \<Rightarrow> headers" where
  "get_headers c =
     (let headers = [(''Content-Type'', ''application/json''),
                     (''x-authorization-key'', secret_key c)]
      in case public_key c of
           None \<Rightarrow> headers
         | Some pk \<Rightarrow> if pk \<noteq> [] then headers @ [(''x-store-key'', pk)] else headers)"

definition generate_txid :: "world \<Rightarrow> string" where
  "generate_txid w =
     ''CASHTIME'' @ str_int (clock_seconds w) @ str_upper (bytes_hex (urandom w 4))"

section \<open>Creating a payment\<close>

definition field_missing :: "string \<Rightarrow> string" where
  "field_missing field = ''Campo obrigat'' @ o_acute @ ''rio ausente: '' @ field"

definition required_fields :: "string list" where
  "required_fields = [''amount'', ''description'']"

text \<open>The test of the loop, \<open>field not in data or not data[field]\<close>.\<close>

definition absent_or_falsy :: "pydict \<Rightarrow> string \<Rightarrow> bool" where
  "absent_or_falsy data field =
     (case map_of data field of None \<Rightarrow> True | Some v \<Rightarrow> \<not> truthy v)"

text \<open>The validation loop: the first required field that is absent or falsy raises.\<close>

fun validate_required :: "pydict \<Rightarrow> string list \<Rightarrow> exc + unit" where
  "validate_required data [] = Inr ()"
| "validate_required data (field # others) =
     (if absent_or_falsy data field then Inl (Exc ValueError (field_missing field))
      else validate_required data others)"

text \<open>\<open>data[k]\<close> and \<open>float(v)\<close>.\<close>

definition dict_item :: "pydict \<Rightarrow> string \<Rightarrow> exc + pyval" where
  "dict_item d k =
     (case map_of d k of
        None \<Rightarrow> Inl (Exc KeyError ([CHR 0x27] @ k @ [CHR 0x27]))
      | Some v \<Rightarrow> Inr v)"

fun py_float :: "world \<Rightarrow> pyval \<Rightarrow> exc + pyfloat" where
  "py_float w (PFloat f) = Inr f"
| "py_float w (PInt i) = int_to_float i"
| "py_float w (PBool b) = Inr (Fin (if b then 1 else 0))"
| "py_float w (PStr s) = float_of_str w s"
| "py_float w v =
     Inl (Exc TypeError (''float() argument must be a string or a real number, not ''
                         @ [CHR 0x27] @ type_name v @ [CHR 0x27]))"

text \<open>
  \<open>amount_cents = int(float(data['amount']) * 100)\<close>. The integer 100 converts to
  the float 100.0 exactly, and the product is a floating-point product.
\<close>

definition amount_cents :: "world \<Rightarrow> pydict \<Rightarrow> exc + int" where
  "amount_cents w data =
     bind_exc (dict_item data ''amount'') (\<lambda>a.
     bind_exc (py_float w a) (\<lambda>f.
     float_to_int (float_mul f (Fin 100))))"

definition item_title :: string where
  "item_title = ''Regulariza'' @ c_cedil @ a_tilde @ ''o de D'' @ e_acute @ ''bitos''"

text \<open>The \<open>customer\<close> object of the payload, given the tax identifier without punctuation.\<close>

definition customer :: "pydict \<Rightarrow> pyval \<Rightarrow> pyval" where
  "customer data number =
     PDict
       [(''name'', dict_get data ''name'' (PStr ''Cliente'')),
        (''email'', dict_get data ''email'' (PStr ''cliente@dominio.com.br'')),
        (''phone'', dict_get data ''phone'' (PStr ''11999999999'')),
        (''document'', PDict [(''number'', number), (''type'', PStr ''cpf'')])]"

definition cashtime_payload :: "pydict \<Rightarrow> int \<Rightarrow> exc + pyval" where
  "cashtime_payload data cents =
     bind_exc (py_remove_char (dict_get data ''cpf'' (PStr [])) (CHR ''.'')) (\<lambda>cpf1.
     bind_exc (py_remove_char cpf1 (CHR ''-'')) (\<lambda>cpf2.
     bind_exc (dict_item data ''description'') (\<lambda>description.
     Inr (PDict
       [(''paymentMethod'', PStr ''pix''),
        (''customer'', customer data cpf2),
        (''items'', PList
           [PDict
              [(''title'', PStr item_title),
               (''description'', description),
               (''unitPrice'', PInt cents),
               (''quantity'', PInt 1),
               (''tangible'', PBool False)]]),
        (''isInfoProducts'', PBool True),
        (''installments'', PInt 1),
        (''installmentFee'', PInt 0),
        (''postbackUrl'', PStr ''https://webhook.site/unique-uuid-4-testing''),
        (''ip'', PStr ''127.0.0.1''),
        (''amount'', PInt cents)]))))"

text \<open>
  Everything \<open>create_pix_payment\<close> computes before it calls the provider, in the
  order of the source; the last step is the log line that serialises the payload.
\<close>

record prepared =
  p_txid :: string
  p_expires_at :: string
  p_payload :: pyval

definition prepare :: "world \<Rightarrow> pydict \<Rightarrow> exc + prepared" where
  "prepare w data =
     bind_exc (validate_required data required_fields) (\<lambda>u.
     let txid = generate_txid w;
         expiration_minutes = dict_get data ''expirationMinutes'' (PInt 60)
     in bind_exc (expires_at w expiration_minutes) (\<lambda>exp_at.
        bind_exc (amount_cents w data) (\<lambda>cents.
        bind_exc (cashtime_payload data cents) (\<lambda>payload.
        bind_exc (json_dumps w payload) (\<lambda>logged.
        Inr \<lparr>p_txid = txid, p_expires_at = exp_at, p_payload = payload\<rparr>)))))"

text \<open>The three branches under \<open>if not response.ok\<close>.\<close>

definition auth_error_msg :: string where
  "auth_error_msg =
     ''Erro de autentica'' @ c_cedil @ a_tilde @ ''o. Verifique sua secret key da Cashtime''"

definition invalid_data_msg :: string where
  "invalid_data_msg = ''Dados inv'' @ a_acute @ ''lidos enviados para a API''"

definition status_error :: "response \<Rightarrow> exc" where
  "status_error r =
     (if status_code r = 403 then Exc PlainException auth_error_msg
      else if status_code r = 400 then Exc PlainException invalid_data_msg
      else Exc PlainException (''Erro na API Cashtime: '' @ str_int (status_code r)))"

text \<open>The standardised result, built from the decoded body of a successful response.\<close>

definition payer :: "pydict \<Rightarrow> pyval" where
  "payer data =
     PDict
       [(''name'', dict_get data ''name'' PNone),
        (''cpf'', dict_get data ''cpf'' PNone),
        (''email'', dict_get data ''email'' PNone)]"

definition payment_result :: "world \<Rightarrow> pydict \<Rightarrow> prepared \<Rightarrow> pyval \<Rightarrow> exc + pyval" where
  "payment_result w data p cashtime_result =
     bind_exc (py_get cashtime_result ''pix'' (PDict [])) (\<lambda>pix_data.
     bind_exc (py_get pix_data ''payload'' (PStr [])) (\<lambda>pix_code.
     bind_exc (py_get pix_data ''encodedImage'' (PStr [])) (\<lambda>qr_code_image.
     bind_exc (py_get cashtime_result ''id'' (PStr [])) (\<lambda>cashtime_id.
     bind_exc (dict_item data ''amount'') (\<lambda>amount.
     bind_exc (dict_item data ''description'') (\<lambda>description.
     bind_exc (py_get cashtime_result ''status'' (PStr ''pending'')) (\<lambda>status.
     Inr (PDict
       [(''success'', PBool True),
        (''txid'', PStr (p_txid p)),
        (''cashtime_id'', cashtime_id),
        (''amount'', amount),
        (''currency'', PStr ''BRL''),
        (''description'', description),
        (''status'', status),
        (''pix_code'', pix_code),
        (''qr_code_image'', qr_code_image),
        (''expires_at'', PStr (p_expires_at p)),
        (''created_at'', PStr (created_at w)),
        (''payer'', payer data),
        (''cashtime_response'', cashtime_result)]))))))))"

text \<open>
  The body of the \<open>try\<close> block, with the network calls it made: none when the
  preparation raises, one POST otherwise. The decoded body is serialised for the
  second log line before the result is built.
\<close>

definition create_pix_payment_try :: "world \<Rightarrow> client \<Rightarrow> pydict \<Rightarrow> http_call list \<times> (exc + pyval)" where
  "create_pix_payment_try w c data =
     (case prepare w data of
        Inl e \<Rightarrow> ([], Inl e)
      | Inr p \<Rightarrow>
          (let headers = get_headers c; url = API_URL @ ''/transactions''
           in ([POST url headers (p_payload p)],
               bind_exc (http_post w url headers (p_payload p)) (\<lambda>response.
               if \<not> ok response then Inl (status_error response)
               else bind_exc (json response) (\<lambda>cashtime_result.
                    bind_exc (json_dumps w cashtime_result) (\<lambda>logged.
                    payment_result w data p cashtime_result))))))"

text \<open>
  The two handlers: a \<open>RequestException\<close> and any other exception are both raised
  again as a plain \<open>Exception\<close>, with a prefix that tells them apart.
\<close>

definition connection_error_prefix :: string where
  "connection_error_prefix = ''Erro de conex'' @ a_tilde @ ''o com a API: ''"

definition processing_error_prefix :: string where
  "processing_error_prefix = ''Erro ao processar pagamento: ''"

definition reraise :: "exc \<Rightarrow> exc" where
  "reraise e =
     (if exc_cls e = RequestException
      then Exc PlainException (connection_error_prefix @ str_exc e)
      else Exc PlainException (processing_error_prefix @ str_exc e))"

definition create_pix_payment :: "world \<Rightarrow> client \<Rightarrow> pydict \<Rightarrow> http_call list \<times> (exc + pyval)" where
  "create_pix_payment w c data =
     (case create_pix_payment_try w c data of
        (calls, Inl e) \<Rightarrow> (calls, Inl (reraise e))
      | (calls, Inr result) \<Rightarrow> (calls, Inr result))"

section \<open>Checking a payment\<close>

definition not_found_msg :: string where
  "not_found_msg = ''Transa'' @ c_cedil @ a_tilde @ ''o n'' @ a_tilde @ ''o encontrada''"

definition failure :: "string \<Rightarrow> pyval" where
  "failure m = PDict [(''success'', PBool False), (''error'', PStr m)]"

text \<open>
  \<open>orders.get('total', 0) / 100 if orders.get('total') else 0\<close>.
\<close>

definition reported_amount :: "pyval \<Rightarrow> exc + pyval" where
  "reported_amount orders =
     bind_exc (py_get orders ''total'' PNone) (\<lambda>t.
     if truthy t
     then bind_exc (py_get orders ''total'' (PInt 0)) (\<lambda>total. py_truediv total (PInt 100))
     else Inr (PInt 0))"

definition status_result :: "string \<Rightarrow> pyval \<Rightarrow> exc + pyval" where
  "status_result txid result =
     bind_exc (py_get result ''orders'' (PDict [])) (\<lambda>orders.
     bind_exc (py_get orders ''status'' (PStr ''unknown'')) (\<lambda>status.
     bind_exc (reported_amount orders) (\<lambda>amount.
     bind_exc (py_get orders ''paymentMethod'' PNone) (\<lambda>payment_method.
     bind_exc (py_get orders ''createdAt'' PNone) (\<lambda>created.
     bind_exc (py_get orders ''updatedAt'' PNone) (\<lambda>updated.
     Inr (PDict
       [(''success'', PBool True),
        (''txid'', PStr txid),
        (''status'', status),
        (''amount'', amount),
        (''payment_method'', payment_method),
        (''created_at'', created),
        (''updated_at'', updated),
        (''cashtime_response'', result)])))))))"

definition check_payment_status_try :: "world \<Rightarrow> client \<Rightarrow> string \<Rightarrow> exc + pyval" where
  "check_payment_status_try w c txid =
     (let headers = get_headers c
      in bind_exc (http_get w (API_URL @ ''/transactions/'' @ txid) headers) (\<lambda>response.
         if status_code response = 404 then Inr (failure not_found_msg)
         else if \<not> ok response
         then Inr (failure (''Erro na API: '' @ str_int (status_code response)))
         else bind_exc (json response) (status_result txid)))"

text \<open>The handler \<open>except Exception\<close> turns every exception into a failure result.\<close>

definition check_payment_status :: "world \<Rightarrow> client \<Rightarrow> string \<Rightarrow> exc + pyval" where
  "check_payment_status w c txid =
     (case check_payment_status_try w c txid of
        Inl e \<Rightarrow> Inr (failure (str_exc e))
      | Inr result \<Rightarrow> Inr result)"

section \<open>Concrete runs\<close>

text \<open>
  A client, a request and an environment on which the definitions are run. The
  amount of \<open>sample_data\<close> is the float that the Python literal \<open>19.90\<close> denotes,
  \<open>2800676018271027 / 2 ^ 47\<close>. The transport of \<open>sample_world r\<close> answers every
  call with the response \<open>r\<close>.
\<close>

definition sample_client :: client where
  "sample_client = \<lparr>secret_key = ''sk_live_1'', public_key = Some ''pk_live_1''\<rparr>"

definition float_19_90 :: pyfloat where
  "float_19_90 = Fin (2800676018271027 / 140737488355328)"

definition float_10_005 :: pyfloat where
  "float_10_005 = Fin (5632314283980227 / 562949953421312)"

definition sample_data :: pydict where
  "sample_data = [(''amount'', PFloat float_19_90), (''description'', PStr ''Taxa'')]"

definition sample_world :: "response \<Rightarrow> world" where
  "sample_world r =
     \<lparr>clock_seconds = 1730000000,
      urandom = (\<lambda>n. take n [0xDE, 0xAD, 0xBE, 0xEF]),
      expires_at = (\<lambda>m. Inr ''2024-10-27T04:33:20''),
      created_at = ''2024-10-27T03:33:21'',
      float_of_str = (\<lambda>s. if s = ''19.90'' then Inr float_19_90
                         else Inl (Exc ValueError ''could not convert string to float'')),
      json_dumps = (\<lambda>v. Inr ''{...}''),
      http_post = (\<lambda>url h body. Inr r),
      http_get = (\<lambda>url h. Inr r),
      environ = [''CASHTIME_SECRET_KEY'' \<mapsto> ''sk_live_1'']\<rparr>"

definition created_body :: pyval where
  "created_body =
     PDict [(''id'', PStr ''tr_1''), (''status'', PStr ''pending''),
            (''pix'', PDict [(''payload'', PStr ''000201''), (''encodedImage'', PStr ''iVBOR'')])]"

definition status_body :: pyval where
  "status_body =
     PDict [(''orders'', PDict [(''status'', PStr ''paid''), (''total'', PInt 1990),
                                (''paymentMethod'', PStr ''pix'')])]"

definition respond :: "int \<Rightarrow> pyval \<Rightarrow> response" where
  "respond code body = \<lparr>status_code = code, body_text = [], json = Inr body\<rparr>"


definition sample_txid :: string where
  "sample_txid = ''CASHTIME1730000000DEADBEEF''"

definition sample_payload :: pyval where
  "sample_payload =
     PDict
       [(''paymentMethod'', PStr ''pix''),
        (''customer'', customer sample_data (PStr [])),
        (''items'', PList
           [PDict
              [(''title'', PStr item_title),
               (''description'', PStr ''Taxa''),
               (''unitPrice'', PInt 1989),
               (''quantity'', PInt 1),
               (''tangible'', PBool False)]]),
        (''isInfoProducts'', PBool True),
        (''installments'', PInt 1),
        (''installmentFee'', PInt 0),
        (''postbackUrl'', PStr ''https://webhook.site/unique-uuid-4-testing''),
        (''ip'', PStr ''127.0.0.1''),
        (''amount'', PInt 1989)]"

definition sample_prepared :: prepared where
  "sample_prepared =
     \<lparr>p_txid = sample_txid, p_expires_at = ''2024-10-27T04:33:20'', p_payload = sample_payload\<rparr>"

definition sample_result :: pydict where
  "sample_result =
     [(''success'', PBool True),
      (''txid'', PStr sample_txid),
      (''cashtime_id'', PStr ''tr_1''),
      (''amount'', PFloat float_19_90),
      (''currency'', PStr ''BRL''),
      (''description'', PStr ''Taxa''),
      (''status'', PStr ''pending''),
      (''pix_code'', PStr ''000201''),
      (''qr_code_image'', PStr ''iVBOR''),
      (''expires_at'', PStr ''2024-10-27T04:33:20''),
      (''created_at'', PStr ''2024-10-27T03:33:21''),
      (''payer'', payer sample_data),
      (''cashtime_response'', created_body)]"


definition sample_status :: pydict where
  "sample_status =
     [(''success'', PBool True),
      (''txid'', PStr ''tr_1''),
      (''status'', PStr ''paid''),
      (''amount'', PFloat float_19_90),
      (''payment_method'', PStr ''pix''),
      (''created_at'', PNone),
      (''updated_at'', PNone),
      (''cashtime_response'', status_body)]"

section \<open>Basic facts\<close>

lemma bind_exc_simps:
  "bind_exc (Inl e) f = Inl e"
  "bind_exc (Inr v) f = f v"
  by (simp_all add: bind_exc_def)


lemma check_payment_status_cases:
  "check_payment_status w c txid =
     (case http_get w (API_URL @ ''/transactions/'' @ txid) (get_headers c) of
        Inl e \<Rightarrow> Inr (failure (str_exc e))
      | Inr r \<Rightarrow>
          if status_code r = 404 then Inr (failure not_found_msg)
          else if \<not> ok r then Inr (failure (''Erro na API: '' @ str_int (status_code r)))
          else (case json r of
                  Inl e \<Rightarrow> Inr (failure (str_exc e))
                | Inr body \<Rightarrow>
                    (case status_result txid body of
                       Inl e \<Rightarrow> Inr (failure (str_exc e))
                     | Inr v \<Rightarrow> Inr v)))"
  by (simp add: check_payment_status_def check_payment_status_try_def bind_exc_def Let_def
           split: sum.splits)


lemma quotient_1990: "int_truediv 1990 100 = Inr float_19_90"
  by code_simp

lemma sample_status_result: "status_result ''tr_1'' status_body = Inr (PDict sample_status)"
proof -
  have t: "py_truediv (PInt 1990) (PInt 100) = Inr (PFloat float_19_90)"
    by (simp add: py_truediv_def quotient_1990 bind_exc_simps)
  show ?thesis
    by (simp add: status_result_def reported_amount_def status_body_def [symmetric]
          sample_status_def bind_exc_simps)
       (simp add: status_body_def dict_get_def bind_exc_simps t)
qed

section \<open>Headers\<close>

text \<open>
  Claim C5. Whatever the client, the header map of \<open>_get_headers\<close> holds the
  content type and the secret key under \<open>x-authorization-key\<close>; it holds
  \<open>x-store-key\<close> exactly when a public key is configured, that is, when
  \<open>public_key\<close> is neither \<open>None\<close> nor the empty string (the test \<open>if self.public_key\<close>),
  and then with the public key as its value. The map is a function of the two
  credential fields alone.
\<close>

theorem get_headers_contents:
  "map_of (get_headers c) ''Content-Type'' = Some ''application/json''
   \<and> map_of (get_headers c) ''x-authorization-key'' = Some (secret_key c)
   \<and> ((''x-store-key'' \<in> fst ` set (get_headers c)) = truthy_opt (public_key c))
   \<and> map_of (get_headers c) ''x-store-key''
       = (if truthy_opt (public_key c) then public_key c else None)
   \<and> get_headers c = get_headers \<lparr>secret_key = secret_key c, public_key = public_key c\<rparr>"
  by (cases "public_key c") (auto simp: get_headers_def)

section \<open>The factory\<close>

text \<open>
  Claim C7. \<open>create_cashtime_api\<close> raises its \<open>ValueError\<close> exactly when neither the
  argument nor the variable \<open>CASHTIME_SECRET_KEY\<close> gives a non-empty secret key;
  it raises nothing else, so a missing public key is never an error; and every
  client it returns has a non-empty secret key.
\<close>

theorem create_cashtime_api_fails_iff:
  "(create_cashtime_api w sk pk = Inl (Exc ValueError secret_key_missing))
     = (\<not> truthy_opt sk \<and> \<not> truthy_opt (environ w ''CASHTIME_SECRET_KEY''))
   \<and> isl (create_cashtime_api w sk pk)
     = (\<not> truthy_opt sk \<and> \<not> truthy_opt (environ w ''CASHTIME_SECRET_KEY''))
   \<and> (\<forall>c. create_cashtime_api w sk pk = Inr c \<longrightarrow> secret_key c \<noteq> [])"
  by (cases sk; cases "environ w ''CASHTIME_SECRET_KEY''")
     (auto simp: create_cashtime_api_def secret_from_environ_def bind_exc_simps Let_def)

theorem create_cashtime_api_fails_iff_witness:
  "create_cashtime_api (sample_world (respond 200 created_body)) None None
     = Inr \<lparr>secret_key = ''sk_live_1'', public_key = None\<rparr>
   \<and> secret_key \<lparr>secret_key = ''sk_live_1'', public_key = None\<rparr> \<noteq> []"
proof -
  have run: "create_cashtime_api (sample_world (respond 200 created_body)) None None
               = Inr \<lparr>secret_key = ''sk_live_1'', public_key = None\<rparr>"
    by (simp add: create_cashtime_api_def secret_from_environ_def bind_exc_simps
          sample_world_def)
  from create_cashtime_api_fails_iff
         [of "sample_world (respond 200 created_body)" None None] run
  show ?thesis by simp
qed

section \<open>Status lookup\<close>





section \<open>Facts about creating a payment\<close>

lemma validate_required_fields:
  "validate_required data required_fields =
     (if absent_or_falsy data ''amount'' then Inl (Exc ValueError (field_missing ''amount''))
      else if absent_or_falsy data ''description''
      then Inl (Exc ValueError (field_missing ''description''))
      else Inr ())"
  by (simp add: required_fields_def)

lemma prepare_Inr:
  assumes "prepare w data = Inr p"
  shows "\<not> absent_or_falsy data ''amount''"
    and "\<not> absent_or_falsy data ''description''"
    and "p_txid p = generate_txid w"
    and "\<exists>cents. amount_cents w data = Inr cents \<and> cashtime_payload data cents = Inr (p_payload p)"
  using assms
  by (auto simp: prepare_def validate_required_fields bind_exc_def Let_def
           split: sum.splits if_splits)


lemma create_pix_payment_try_Inr_prepare:
  "prepare w data = Inr p \<Longrightarrow>
   create_pix_payment_try w c data =
     ([POST (API_URL @ ''/transactions'') (get_headers c) (p_payload p)],
      bind_exc (http_post w (API_URL @ ''/transactions'') (get_headers c) (p_payload p))
        (\<lambda>response. if \<not> ok response then Inl (status_error response)
                     else bind_exc (json response) (\<lambda>cashtime_result.
                          bind_exc (json_dumps w cashtime_result) (\<lambda>logged.
                          payment_result w data p cashtime_result))))"
  by (simp add: create_pix_payment_try_def Let_def)

lemma calls_of_create_pix_payment:
  "fst (create_pix_payment w c data)
     = (case prepare w data of
          Inl e \<Rightarrow> []
        | Inr p \<Rightarrow> [POST (API_URL @ ''/transactions'') (get_headers c) (p_payload p)])"
  by (simp add: create_pix_payment_def create_pix_payment_try_def Let_def
           split: sum.splits prod.splits)

lemma create_pix_payment_Inr:
  assumes "snd (create_pix_payment w c data) = Inr v"
  shows "\<exists>p cr. prepare w data = Inr p \<and> payment_result w data p cr = Inr v"
  using assms
  by (auto simp: create_pix_payment_def create_pix_payment_try_def bind_exc_def Let_def
           split: sum.splits prod.splits if_splits)

lemma payment_result_fields:
  assumes "payment_result w data p cr = Inr v"
  shows "\<exists>d. v = PDict d
           \<and> map_of d ''success'' = Some (PBool True)
           \<and> map_of d ''txid'' = Some (PStr (p_txid p))
           \<and> map_of d ''currency'' = Some (PStr ''BRL'')
           \<and> map_of d ''amount'' = map_of data ''amount''
           \<and> map_of d ''description'' = map_of data ''description''
           \<and> map_of d ''payer'' = Some (payer data)"
  using assms
  by (auto simp: payment_result_def bind_exc_def dict_item_def
           split: sum.splits option.splits)

lemma cashtime_payload_customer:
  assumes "cashtime_payload data cents = Inr body"
  shows "\<exists>number. py_get body ''customer'' PNone = Inr (customer data number)
           \<and> (map_of data ''cpf'' = None \<longrightarrow> number = PStr [])"
  using assms
  by (auto simp: cashtime_payload_def bind_exc_def dict_get_def
           split: sum.splits option.splits)

lemma str_int_sample: "str_int 1730000000 = ''1730000000''"
  by (simp add: str_int_def digit_char_def) code_simp

lemma hex_sample: "str_upper (bytes_hex [0xDE, 0xAD, 0xBE, 0xEF]) = ''DEADBEEF''"
  by (simp add: str_upper_def bytes_hex_def hex_char_def digit_char_def upper_char_def)
     code_simp

lemma sample_generate_txid: "generate_txid (sample_world r) = sample_txid"
  by (simp add: generate_txid_def sample_world_def str_int_sample hex_sample sample_txid_def)

lemma cents_19_90: "float_to_int (float_mul float_19_90 (Fin 100)) = Inr 1989"
  by code_simp

lemma cents_10_005: "float_to_int (float_mul float_10_005 (Fin 100)) = Inr 1000"
  by code_simp

lemma literal_19_90: "round_double (199 / 10) = float_19_90"
  by code_simp

lemma literal_10_005: "round_double (2001 / 200) = float_10_005"
  by code_simp

lemma sample_amount_cents: "amount_cents w sample_data = Inr 1989"
  by (simp add: amount_cents_def sample_data_def dict_item_def bind_exc_simps cents_19_90)

lemma sample_cashtime_payload: "cashtime_payload sample_data 1989 = Inr sample_payload"
  by (simp add: cashtime_payload_def sample_payload_def dict_get_def dict_item_def
        bind_exc_simps sample_data_def)

lemma sample_validate: "validate_required sample_data required_fields = Inr ()"
  by (simp add: validate_required_fields absent_or_falsy_def sample_data_def float_19_90_def)

lemma sample_prepare: "prepare (sample_world r) sample_data = Inr sample_prepared"
proof -
  have e: "expires_at (sample_world r) m = Inr ''2024-10-27T04:33:20''" for m
    by (simp add: sample_world_def)
  have l: "json_dumps (sample_world r) v = Inr ''{...}''" for v
    by (simp add: sample_world_def)
  show ?thesis
    by (simp add: prepare_def sample_validate bind_exc_simps sample_generate_txid
          sample_amount_cents sample_cashtime_payload sample_prepared_def e l)
qed

lemma sample_payment_result:
  "payment_result (sample_world r) sample_data sample_prepared created_body
     = Inr (PDict sample_result)"
proof -
  have c: "created_at (sample_world r) = ''2024-10-27T03:33:21''"
    by (simp add: sample_world_def)
  have a: "dict_item sample_data ''amount'' = Inr (PFloat float_19_90)"
    by (simp add: dict_item_def sample_data_def)
  have d: "dict_item sample_data ''description'' = Inr (PStr ''Taxa'')"
    by (simp add: dict_item_def sample_data_def)
  show ?thesis
    by (simp add: payment_result_def created_body_def dict_get_def a d c
          bind_exc_simps sample_result_def sample_prepared_def)
qed

lemma sample_run:
  assumes "\<not> (400 \<le> code \<and> code < 600)"
  shows "create_pix_payment (sample_world (respond code created_body)) sample_client sample_data
           = ([POST (API_URL @ ''/transactions'') (get_headers sample_client) sample_payload],
              Inr (PDict sample_result))"
proof -
  have post: "http_post (sample_world (respond code created_body))
                (API_URL @ ''/transactions'') (get_headers sample_client) sample_payload
              = Inr (respond code created_body)"
    by (simp add: sample_world_def)
  have okr: "ok (respond code created_body)"
    using assms by (simp add: ok_def respond_def)
  have js: "json (respond code created_body) = Inr created_body"
    by (simp add: respond_def)
  have p: "p_payload sample_prepared = sample_payload"
    by (simp add: sample_prepared_def)
  have l: "json_dumps (sample_world (respond code created_body)) v = Inr ''{...}''" for v
    by (simp add: sample_world_def)
  show ?thesis
    by (simp add: create_pix_payment_def create_pix_payment_try_Inr_prepare [OF sample_prepare]
          p post okr js l bind_exc_simps sample_payment_result)
qed

lemma py_float_cong:
  "float_of_str w' = float_of_str w \<Longrightarrow> py_float w' v = py_float w v"
  by (cases v) simp_all

lemma amount_cents_cong:
  "float_of_str w' = float_of_str w \<Longrightarrow> amount_cents w' data = amount_cents w data"
  by (simp add: amount_cents_def py_float_cong [of w' w])

lemma prepare_cong:
  assumes "float_of_str w' = float_of_str w" and "expires_at w' = expires_at w"
    and "json_dumps w' = json_dumps w"
  shows "prepare w' data
           = (case prepare w data of
                Inl e \<Rightarrow> Inl e
              | Inr p \<Rightarrow> Inr (p\<lparr>p_txid := generate_txid w'\<rparr>))"
proof (cases "validate_required data required_fields")
  case (Inl e)
  then show ?thesis by (simp add: prepare_def bind_exc_simps)
next
  case v: (Inr u)
  show ?thesis
  proof (cases "expires_at w (dict_get data ''expirationMinutes'' (PInt 60))")
    case (Inl e)
    with v assms show ?thesis by (simp add: prepare_def bind_exc_simps)
  next
    case x: (Inr exp_at)
    show ?thesis
    proof (cases "amount_cents w data")
      case (Inl e)
      with v x assms show ?thesis
        by (simp add: prepare_def bind_exc_simps amount_cents_cong [of w' w])
    next
      case a: (Inr cents)
      show ?thesis
      proof (cases "cashtime_payload data cents")
        case (Inl e)
        with v x a assms show ?thesis
          by (simp add: prepare_def bind_exc_simps amount_cents_cong [of w' w])
      next
        case pl: (Inr payload)
        show ?thesis
        proof (cases "json_dumps w payload")
          case (Inl e)
          with v x a pl assms show ?thesis
            by (simp add: prepare_def bind_exc_simps amount_cents_cong [of w' w])
        next
          case (Inr logged)
          with v x a pl assms show ?thesis
            by (simp add: prepare_def bind_exc_simps amount_cents_cong [of w' w])
        qed
      qed
    qed
  qed
qed

section \<open>Validation and provider errors\<close>



text \<open>
  Claim C4, as the code has it. A response is an error for the source when
  \<open>response.ok\<close> is false, that is, for the statuses 400 to 599. For each of them
  \<open>create_pix_payment\<close> raises and returns no result: status 403 gives the
  authentication message, status 400 the invalid-data message, every other one
  the message that carries the status code.
\<close>

theorem error_status_raises:
  assumes "prepare w data = Inr p"
    and "http_post w (API_URL @ ''/transactions'') (get_headers c) (p_payload p) = Inr r"
    and "400 \<le> status_code r" and "status_code r < 600"
  shows "snd (create_pix_payment w c data)
           = Inl (Exc PlainException (processing_error_prefix @
                (if status_code r = 403 then auth_error_msg
                 else if status_code r = 400 then invalid_data_msg
                 else ''Erro na API Cashtime: '' @ str_int (status_code r))))"
  using assms
  by (simp add: create_pix_payment_def create_pix_payment_try_Inr_prepare bind_exc_simps
        ok_def status_error_def reraise_def)

theorem error_status_raises_witness:
  "snd (create_pix_payment (sample_world (respond 500 created_body)) sample_client sample_data)
     = Inl (Exc PlainException
         (processing_error_prefix @ ''Erro na API Cashtime: '' @ str_int 500))"
proof -
  have post: "http_post (sample_world (respond 500 created_body))
                (API_URL @ ''/transactions'') (get_headers sample_client)
                (p_payload sample_prepared)
              = Inr (respond 500 created_body)"
    by (simp add: sample_world_def)
  have code: "status_code (respond 500 created_body) = 500"
    by (simp add: respond_def)
  from error_status_raises [OF sample_prepare post] code show ?thesis
    by simp
qed

text \<open>
  Claim C4 as stated speaks of every status that is not 2xx. A status outside
  400 to 599 passes the test \<open>response.ok\<close>: with status 300 and a JSON body the
  call returns a result.
\<close>

theorem redirect_status_returns_result:
  "status_code (respond 300 created_body) = 300
   \<and> http_post (sample_world (respond 300 created_body))
        (API_URL @ ''/transactions'') (get_headers sample_client) sample_payload
       = Inr (respond 300 created_body)
   \<and> create_pix_payment (sample_world (respond 300 created_body)) sample_client sample_data
       = ([POST (API_URL @ ''/transactions'') (get_headers sample_client) sample_payload],
          Inr (PDict sample_result))"
  by (simp add: sample_run) (simp add: respond_def sample_world_def)

section \<open>The transaction identifier and the result\<close>

text \<open>
  Claim C9. The payload sent to the provider is built from the request and the
  minor-unit amount alone: it is the value of \<open>cashtime_payload\<close>, which has no
  access to the transaction identifier, and the network calls of a run are the
  same whatever the clock and the random source, from which the identifier is
  made, give. When the call returns a result, its \<open>txid\<close> entry is the generated
  identifier.
\<close>

theorem txid_not_in_payload:
  "fst (create_pix_payment (w\<lparr>clock_seconds := t, urandom := u\<rparr>) c data)
     = fst (create_pix_payment w c data)
   \<and> (\<forall>url h body. POST url h body \<in> set (fst (create_pix_payment w c data))
         \<longrightarrow> (\<exists>cents. cashtime_payload data cents = Inr body))
   \<and> (\<forall>v. snd (create_pix_payment w c data) = Inr v
         \<longrightarrow> (\<exists>d. v = PDict d \<and> map_of d ''txid'' = Some (PStr (generate_txid w))))"
proof (intro conjI allI impI)
  show "fst (create_pix_payment (w\<lparr>clock_seconds := t, urandom := u\<rparr>) c data)
          = fst (create_pix_payment w c data)"
    by (cases "prepare w data")
       (simp_all add: calls_of_create_pix_payment
          prepare_cong [of "w\<lparr>clock_seconds := t, urandom := u\<rparr>" w])
next
  fix url h body
  assume "POST url h body \<in> set (fst (create_pix_payment w c data))"
  then obtain p where "prepare w data = Inr p" and "body = p_payload p"
    by (cases "prepare w data") (auto simp: calls_of_create_pix_payment)
  with prepare_Inr(4) show "\<exists>cents. cashtime_payload data cents = Inr body"
    by blast
next
  fix v
  assume "snd (create_pix_payment w c data) = Inr v"
  then obtain p cr where p: "prepare w data = Inr p"
    and r: "payment_result w data p cr = Inr v"
    using create_pix_payment_Inr by blast
  from payment_result_fields [OF r] prepare_Inr(3) [OF p]
  show "\<exists>d. v = PDict d \<and> map_of d ''txid'' = Some (PStr (generate_txid w))"
    by auto
qed

theorem txid_not_in_payload_witness:
  "fst (create_pix_payment
          ((sample_world (respond 200 created_body))\<lparr>clock_seconds := 0, urandom := (\<lambda>n. [])\<rparr>)
          sample_client sample_data)
     = [POST (API_URL @ ''/transactions'') (get_headers sample_client) sample_payload]
   \<and> cashtime_payload sample_data 1989 = Inr sample_payload
   \<and> map_of sample_result ''txid''
     = Some (PStr (generate_txid (sample_world (respond 200 created_body))))"
proof -
  have run: "create_pix_payment (sample_world (respond 200 created_body)) sample_client sample_data
           = ([POST (API_URL @ ''/transactions'') (get_headers sample_client) sample_payload],
              Inr (PDict sample_result))"
    by (rule sample_run) simp
  from txid_not_in_payload
         [where w = "sample_world (respond 200 created_body)" and t = 0 and u = "\<lambda>n. []"
            and c = sample_client and data = sample_data]
  have "fst (create_pix_payment
          ((sample_world (respond 200 created_body))\<lparr>clock_seconds := 0, urandom := (\<lambda>n. [])\<rparr>)
          sample_client sample_data)
     = [POST (API_URL @ ''/transactions'') (get_headers sample_client) sample_payload]"
    and "map_of sample_result ''txid''
     = Some (PStr (generate_txid (sample_world (respond 200 created_body))))"
    by (simp_all add: run)
  with sample_cashtime_payload show ?thesis by simp
qed

text \<open>
  Claim C10. A result that \<open>create_pix_payment\<close> returns has \<open>success\<close> true and
  currency \<open>BRL\<close>, carries the \<open>amount\<close> and \<open>description\<close> of the request as they
  were given (both are present), and its \<open>payer\<close> holds \<open>name\<close>, \<open>cpf\<close> and \<open>email\<close> of
  the request, \<open>None\<close> where the request has none; the payload posted in the same
  run holds the default customer values in their place, and the empty string as
  document number when the request has no \<open>cpf\<close>.
\<close>

theorem result_echoes_input:
  assumes "create_pix_payment w c data = (calls, Inr v)"
  shows "\<exists>d body number.
           v = PDict d
         \<and> map_of d ''success'' = Some (PBool True)
         \<and> map_of d ''currency'' = Some (PStr ''BRL'')
         \<and> map_of d ''amount'' = map_of data ''amount''
         \<and> map_of d ''description'' = map_of data ''description''
         \<and> (\<exists>a. map_of data ''amount'' = Some a)
         \<and> (\<exists>t. map_of data ''description'' = Some t)
         \<and> map_of d ''payer'' = Some (PDict
               [(''name'', dict_get data ''name'' PNone),
                (''cpf'', dict_get data ''cpf'' PNone),
                (''email'', dict_get data ''email'' PNone)])
         \<and> calls = [POST (API_URL @ ''/transactions'') (get_headers c) body]
         \<and> py_get body ''customer'' PNone = Inr (PDict
               [(''name'', dict_get data ''name'' (PStr ''Cliente'')),
                (''email'', dict_get data ''email'' (PStr ''cliente@dominio.com.br'')),
                (''phone'', dict_get data ''phone'' (PStr ''11999999999'')),
                (''document'', PDict [(''number'', number), (''type'', PStr ''cpf'')])])
         \<and> (map_of data ''cpf'' = None \<longrightarrow> number = PStr [])"
proof -
  from assms have s: "snd (create_pix_payment w c data) = Inr v"
    and f: "fst (create_pix_payment w c data) = calls" by simp_all
  from s obtain p cr where p: "prepare w data = Inr p"
    and r: "payment_result w data p cr = Inr v"
    using create_pix_payment_Inr by blast
  from f p have calls: "calls = [POST (API_URL @ ''/transactions'') (get_headers c) (p_payload p)]"
    by (simp add: calls_of_create_pix_payment)
  from prepare_Inr(4) [OF p] obtain cents
    where "cashtime_payload data cents = Inr (p_payload p)" by blast
  from cashtime_payload_customer [OF this] obtain number where
    cust: "py_get (p_payload p) ''customer'' PNone = Inr (customer data number)"
    and num: "map_of data ''cpf'' = None \<longrightarrow> number = PStr []"
    by (elim exE conjE) (rule that; assumption)
  from prepare_Inr(1,2) [OF p] have present:
    "\<exists>a. map_of data ''amount'' = Some a" "\<exists>t. map_of data ''description'' = Some t"
    by (auto simp: absent_or_falsy_def split: option.splits)
  from payment_result_fields [OF r] obtain d where d: "v = PDict d"
    "map_of d ''success'' = Some (PBool True)"
    "map_of d ''currency'' = Some (PStr ''BRL'')"
    "map_of d ''amount'' = map_of data ''amount''"
    "map_of d ''description'' = map_of data ''description''"
    "map_of d ''payer'' = Some (payer data)"
    by blast
  from cust have cust': "py_get (p_payload p) ''customer'' PNone = Inr (PDict
         [(''name'', dict_get data ''name'' (PStr ''Cliente'')),
          (''email'', dict_get data ''email'' (PStr ''cliente@dominio.com.br'')),
          (''phone'', dict_get data ''phone'' (PStr ''11999999999'')),
          (''document'', PDict [(''number'', number), (''type'', PStr ''cpf'')])])"
    by (simp only: customer_def)
  from d(6) have payer': "map_of d ''payer'' = Some (PDict
         [(''name'', dict_get data ''name'' PNone),
          (''cpf'', dict_get data ''cpf'' PNone),
          (''email'', dict_get data ''email'' PNone)])"
    by (simp only: payer_def)
  show ?thesis
    by (rule exI [of _ d], rule exI [of _ "p_payload p"], rule exI [of _ number])
       (intro conjI d(1-5) present payer' calls cust' num)
qed

theorem result_echoes_input_witness:
  "map_of sample_result ''success'' = Some (PBool True)
   \<and> map_of sample_result ''currency'' = Some (PStr ''BRL'')
   \<and> map_of sample_result ''amount'' = Some (PFloat float_19_90)
   \<and> map_of sample_result ''description'' = Some (PStr ''Taxa'')
   \<and> map_of sample_result ''payer''
       = Some (PDict [(''name'', PNone), (''cpf'', PNone), (''email'', PNone)])
   \<and> py_get sample_payload ''customer'' PNone = Inr (PDict
         [(''name'', PStr ''Cliente''),
          (''email'', PStr ''cliente@dominio.com.br''),
          (''phone'', PStr ''11999999999''),
          (''document'', PDict [(''number'', PStr []), (''type'', PStr ''cpf'')])])"
proof -
  have run: "create_pix_payment (sample_world (respond 200 created_body)) sample_client sample_data
           = ([POST (API_URL @ ''/transactions'') (get_headers sample_client) sample_payload],
              Inr (PDict sample_result))"
    by (rule sample_run) simp
  have data: "map_of sample_data ''amount'' = Some (PFloat float_19_90)"
    "map_of sample_data ''description'' = Some (PStr ''Taxa'')"
    "map_of sample_data ''cpf'' = None"
    "dict_get sample_data ''name'' x = x"
    "dict_get sample_data ''cpf'' x = x"
    "dict_get sample_data ''email'' x = x"
    "dict_get sample_data ''phone'' x = x" for x
    by (simp_all add: sample_data_def dict_get_def)
  from result_echoes_input [OF run] obtain d body number where
    "PDict sample_result = PDict d"
    "map_of d ''success'' = Some (PBool True)"
    "map_of d ''currency'' = Some (PStr ''BRL'')"
    "map_of d ''amount'' = map_of sample_data ''amount''"
    "map_of d ''description'' = map_of sample_data ''description''"
    "map_of d ''payer'' = Some (PDict
          [(''name'', dict_get sample_data ''name'' PNone),
           (''cpf'', dict_get sample_data ''cpf'' PNone),
           (''email'', dict_get sample_data ''email'' PNone)])"
    "[POST (API_URL @ ''/transactions'') (get_headers sample_client) sample_payload]
        = [POST (API_URL @ ''/transactions'') (get_headers sample_client) body]"
    "py_get body ''customer'' PNone = Inr (PDict
          [(''name'', dict_get sample_data ''name'' (PStr ''Cliente'')),
           (''email'', dict_get sample_data ''email'' (PStr ''cliente@dominio.com.br'')),
           (''phone'', dict_get sample_data ''phone'' (PStr ''11999999999'')),
           (''document'', PDict [(''number'', number), (''type'', PStr ''cpf'')])])"
    "map_of sample_data ''cpf'' = None \<longrightarrow> number = PStr []"
    by (elim exE conjE) (rule that; assumption)
  then show ?thesis
    by (simp add: data)
qed

section \<open>The amount in minor units\<close>

text \<open>
  Claim C3, run on the code. The Python literal \<open>19.90\<close> is the float
  \<open>float_19_90\<close>, just below 19.9. Its floating-point product with 100 is just
  below 1990, and \<open>int\<close> truncates it: the request \<open>{'amount': 19.90, 'description':
  'Taxa'}\<close> is posted with \<open>unitPrice\<close> and \<open>amount\<close> 1989, where truncation of the
  exact product gives 1990.
\<close>

theorem cents_of_19_90_is_1989:
  "round_double (199 / 10) = float_19_90
   \<and> map_of sample_data ''amount'' = Some (PFloat float_19_90)
   \<and> amount_cents w sample_data = Inr 1989
   \<and> fst (create_pix_payment (sample_world (respond 200 created_body)) sample_client sample_data)
       = [POST (API_URL @ ''/transactions'') (get_headers sample_client) sample_payload]
   \<and> py_get sample_payload ''amount'' PNone = Inr (PInt 1989)
   \<and> py_get sample_payload ''items'' PNone = Inr (PList
         [PDict
            [(''title'', PStr item_title),
             (''description'', PStr ''Taxa''),
             (''unitPrice'', PInt 1989),
             (''quantity'', PInt 1),
             (''tangible'', PBool False)]])
   \<and> \<lfloor>(199 / 10 :: rat) * 100\<rfloor> = 1990"
proof -
  have run: "create_pix_payment (sample_world (respond 200 created_body)) sample_client sample_data
           = ([POST (API_URL @ ''/transactions'') (get_headers sample_client) sample_payload],
              Inr (PDict sample_result))"
    by (rule sample_run) simp
  have d: "map_of sample_data ''amount'' = Some (PFloat float_19_90)"
    by (simp add: sample_data_def)
  have a: "py_get sample_payload ''amount'' PNone = Inr (PInt 1989)"
    by (simp add: sample_payload_def dict_get_def)
  have i: "py_get sample_payload ''items'' PNone = Inr (PList
         [PDict
            [(''title'', PStr item_title),
             (''description'', PStr ''Taxa''),
             (''unitPrice'', PInt 1989),
             (''quantity'', PInt 1),
             (''tangible'', PBool False)]])"
    by (simp add: sample_payload_def dict_get_def)
  have t: "\<lfloor>(199 / 10 :: rat) * 100\<rfloor> = 1990" by simp
  from literal_19_90 d sample_amount_cents [of w] run a i t show ?thesis
    by (simp only: fst_conv simp_thms)
qed

section \<open>The reported amount\<close>

text \<open>Rounding to binary64 moves a number by at most half a unit in the last place.\<close>

lemma round_half_even_error: "\<bar>of_int (round_half_even x) - x\<bar> \<le> 1 / 2"
proof -
  have "of_int \<lfloor>x\<rfloor> \<le> x" "x < of_int \<lfloor>x\<rfloor> + 1" by linarith+
  then show ?thesis
    by (auto simp: round_half_even_def Let_def abs_le_iff)
qed

lemma floor_log2_le:
  assumes "0 < x"
  shows "2 powi (floor_log2 x) \<le> x"
proof -
  obtain p q where pq: "quotient_of x = (p, q)" by (cases "quotient_of x")
  then have q: "0 < q" and x: "x = of_int p / of_int q"
    by (simp_all add: quotient_of_denom_pos quotient_of_div)
  from assms x q have p: "0 < p"
    by (simp add: zero_less_divide_iff)
  let ?d = "bitlen p - bitlen q"
  show ?thesis
  proof (cases "(2::rat) powi ?d \<le> x")
    case True
    then show ?thesis by (simp add: floor_log2_def pq)
  next
    case False
    from bitlen_bounds [OF p] have lo: "2 ^ nat (bitlen p - 1) \<le> p" by simp
    from bitlen_bounds [OF q] have hi: "q < 2 ^ nat (bitlen q)" by simp
    from p have bp: "1 \<le> bitlen p" by (simp add: bitlen_alt_def)
    have bq: "0 \<le> bitlen q" by (rule bitlen_nonneg)
    have "(2::rat) powi (?d - 1) = 2 powi (bitlen p - 1) / 2 powi (bitlen q)"
      by (simp add: power_int_diff)
    also have "\<dots> = 2 ^ nat (bitlen p - 1) / 2 ^ nat (bitlen q)"
      using bp bq by (simp add: power_int_def)
    also have "\<dots> \<le> of_int p / 2 ^ nat (bitlen q)"
    proof -
      from lo have "(of_int (2 ^ nat (bitlen p - 1)) :: rat) \<le> of_int p"
        by (simp only: of_int_le_iff)
      then show ?thesis by (simp add: divide_right_mono)
    qed
    also have "\<dots> \<le> of_int p / of_int q"
    proof -
      from hi have "q \<le> 2 ^ nat (bitlen q)" by simp
      then have "(of_int q :: rat) \<le> of_int (2 ^ nat (bitlen q))"
        by (simp only: of_int_le_iff)
      then have "(of_int q :: rat) \<le> 2 ^ nat (bitlen q)" by simp
      with p q show ?thesis by (simp add: divide_left_mono)
    qed
    finally have "(2::rat) powi (?d - 1) \<le> x" by (simp add: x)
    with False show ?thesis by (simp add: floor_log2_def pq)
  qed
qed

lemma round_double_error:
  assumes "round_double x = Fin y"
  shows "\<bar>y - x\<bar> \<le> max (\<bar>x\<bar> / 2 ^ 53) (1 / 2 ^ 1075)"
proof (cases "x = 0")
  case True
  with assms show ?thesis by (simp add: round_double_def)
next
  case False
  define e where "e = max (floor_log2 \<bar>x\<bar>) (- 1022)"
  define q :: rat where "q = 2 powi (e - 52)"
  have qpos: "0 < q" by (simp add: q_def)
  from assms False have y: "y = of_int (round_half_even (x / q)) * q"
    by (simp add: round_double_def Let_def q_def e_def split: if_splits)
  have "\<bar>y - x\<bar> = \<bar>of_int (round_half_even (x / q)) - x / q\<bar> * q"
  proof -
    have "y - x = (of_int (round_half_even (x / q)) - x / q) * q"
      using qpos by (simp add: y field_simps)
    then show ?thesis using qpos by (simp add: abs_mult)
  qed
  also have "\<dots> \<le> (1 / 2) * q"
    using qpos round_half_even_error [of "x / q"] by (simp add: mult_right_mono)
  also have "\<dots> = 2 powi e / 2 ^ 53"
    by (simp add: q_def power_int_diff)
  finally have bound: "\<bar>y - x\<bar> \<le> 2 powi e / 2 ^ 53" .
  show ?thesis
  proof (cases "- 1022 \<le> floor_log2 \<bar>x\<bar>")
    case True
    then have "e = floor_log2 \<bar>x\<bar>" by (simp add: e_def)
    with floor_log2_le [of "\<bar>x\<bar>"] False have "(2::rat) powi e \<le> \<bar>x\<bar>" by simp
    then have "(2::rat) powi e / 2 ^ 53 \<le> \<bar>x\<bar> / 2 ^ 53"
      by (rule divide_right_mono) simp
    with bound have "\<bar>y - x\<bar> \<le> \<bar>x\<bar> / 2 ^ 53" by (rule order_trans)
    then show ?thesis by (rule max.coboundedI1)
  next
    case False
    then have "e = - 1022" by (simp add: e_def)
    then have "(2::rat) powi e / 2 ^ 53 = 1 / 2 ^ 1075"
      by (simp add: power_int_def power_add [symmetric] field_simps)
    with bound have "\<bar>y - x\<bar> \<le> 1 / 2 ^ 1075" by (simp only:)
    then show ?thesis by (rule max.coboundedI2)
  qed
qed

lemma status_result_orders:
  assumes "dict_get body ''orders'' (PDict []) = PDict orders"
  shows "status_result txid (PDict body) =
           bind_exc (reported_amount (PDict orders)) (\<lambda>amount.
           Inr (PDict
             [(''success'', PBool True),
              (''txid'', PStr txid),
              (''status'', dict_get orders ''status'' (PStr ''unknown'')),
              (''amount'', amount),
              (''payment_method'', dict_get orders ''paymentMethod'' PNone),
              (''created_at'', dict_get orders ''createdAt'' PNone),
              (''updated_at'', dict_get orders ''updatedAt'' PNone),
              (''cashtime_response'', PDict body)]))"
  by (simp add: status_result_def bind_exc_simps assms)

lemma reported_amount_zero:
  "map_of orders ''total'' = None \<or> map_of orders ''total'' = Some (PInt 0)
   \<Longrightarrow> reported_amount (PDict orders) = Inr (PInt 0)"
  by (auto simp: reported_amount_def dict_get_def bind_exc_simps)

lemma reported_amount_int:
  "map_of orders ''total'' = Some (PInt T) \<Longrightarrow> T \<noteq> 0
   \<Longrightarrow> reported_amount (PDict orders)
       = bind_exc (int_truediv T 100) (\<lambda>f. Inr (PFloat f))"
  by (simp add: reported_amount_def dict_get_def bind_exc_simps py_truediv_def)

lemma int_truediv_100:
  "int_truediv T 100 =
     (case round_double (of_int T / 100) of
        Fin y \<Rightarrow> Inr (Fin y)
      | _ \<Rightarrow> Inl (Exc OverflowError ''integer division result too large for a float''))"
  by (simp add: int_truediv_def)

lemma quotient_error:
  assumes "T \<noteq> 0" and "round_double (of_int T / 100) = Fin y"
  shows "\<bar>y - of_int T / 100\<bar> \<le> \<bar>of_int T / 100\<bar> / 2 ^ 53"
proof -
  from assms(1) have "1 \<le> \<bar>T\<bar>" by simp
  then have "(1::rat) \<le> \<bar>of_int T\<bar>"
    by (metis of_int_1_le_iff of_int_abs)
  then have "(1::rat) / 100 \<le> \<bar>of_int T / 100\<bar>" by simp
  then have "((1::rat) / 100) / 2 ^ 53 \<le> \<bar>of_int T / 100\<bar> / 2 ^ 53"
    by (rule divide_right_mono) simp
  moreover have "(1::rat) / 2 ^ 1075 \<le> (1 / 100) / 2 ^ 53" by simp
  ultimately have "(1::rat) / 2 ^ 1075 \<le> \<bar>of_int T / 100\<bar> / 2 ^ 53"
    by (rule order_trans [rotated])
  then have "max (\<bar>of_int T / 100\<bar> / 2 ^ 53) ((1::rat) / 2 ^ 1075) = \<bar>of_int T / 100\<bar> / 2 ^ 53"
    by (rule max_absorb1)
  with round_double_error [OF assms(2)] show ?thesis by (simp only:)
qed

text \<open>
  Claim C6. Let the GET answer with a status that is neither 404 nor an error
  status, and let the decoded body be an object whose \<open>orders\<close> (an empty object
  when absent) is an object. When \<open>total\<close> is missing or is the integer 0, the
  result reports the amount 0. When \<open>total\<close> is an integer \<open>T\<close> other than 0, the
  result reports the float \<open>T / 100\<close> of Python: the binary64 number nearest to the
  exact quotient, within the relative error \<open>2 ^ -53\<close> of it; for the total 1990
  this is the float that the literal \<open>19.90\<close> denotes. Where that quotient is beyond
  the range of a float, the division raises and the lookup returns the failure
  with its message instead of a result.
\<close>

theorem reported_amount_is_total_over_100:
  assumes "http_get w (API_URL @ ''/transactions/'' @ txid) (get_headers c) = Inr r"
    and "status_code r \<noteq> 404" and "ok r"
    and "json r = Inr (PDict body)"
    and "dict_get body ''orders'' (PDict []) = PDict orders"
  shows "(map_of orders ''total'' = None \<or> map_of orders ''total'' = Some (PInt 0)
           \<longrightarrow> (\<exists>d. check_payment_status w c txid = Inr (PDict d)
                  \<and> map_of d ''success'' = Some (PBool True)
                  \<and> map_of d ''amount'' = Some (PInt 0)))
       \<and> (\<forall>T. map_of orders ''total'' = Some (PInt T) \<and> T \<noteq> 0
           \<longrightarrow> (\<exists>y. round_double (of_int T / 100) = Fin y
                    \<and> \<bar>y - of_int T / 100\<bar> \<le> \<bar>of_int T / 100\<bar> / 2 ^ 53
                    \<and> (\<exists>d. check_payment_status w c txid = Inr (PDict d)
                          \<and> map_of d ''success'' = Some (PBool True)
                          \<and> map_of d ''amount'' = Some (PFloat (Fin y))))
               \<or> ((\<forall>y. round_double (of_int T / 100) \<noteq> Fin y)
                   \<and> check_payment_status w c txid
                       = Inr (failure ''integer division result too large for a float'')))"
proof (intro conjI allI impI)
  have cps: "check_payment_status w c txid =
               (case status_result txid (PDict body) of
                  Inl e \<Rightarrow> Inr (failure (str_exc e))
                | Inr v \<Rightarrow> Inr v)"
    using assms(1-4) by (simp add: check_payment_status_cases)
  {
    assume "map_of orders ''total'' = None \<or> map_of orders ''total'' = Some (PInt 0)"
    then have "reported_amount (PDict orders) = Inr (PInt 0)"
      by (rule reported_amount_zero)
    then show "\<exists>d. check_payment_status w c txid = Inr (PDict d)
                  \<and> map_of d ''success'' = Some (PBool True)
                  \<and> map_of d ''amount'' = Some (PInt 0)"
      by (simp add: cps status_result_orders [OF assms(5)] bind_exc_simps)
  }
  {
    fix T
    assume "map_of orders ''total'' = Some (PInt T) \<and> T \<noteq> 0"
    then have t: "map_of orders ''total'' = Some (PInt T)" and nz: "T \<noteq> 0" by simp_all
    have ra: "reported_amount (PDict orders)
                = bind_exc (int_truediv T 100) (\<lambda>f. Inr (PFloat f))"
      using t nz by (rule reported_amount_int)
    show "(\<exists>y. round_double (of_int T / 100) = Fin y
                    \<and> \<bar>y - of_int T / 100\<bar> \<le> \<bar>of_int T / 100\<bar> / 2 ^ 53
                    \<and> (\<exists>d. check_payment_status w c txid = Inr (PDict d)
                          \<and> map_of d ''success'' = Some (PBool True)
                          \<and> map_of d ''amount'' = Some (PFloat (Fin y))))
               \<or> ((\<forall>y. round_double (of_int T / 100) \<noteq> Fin y)
                   \<and> check_payment_status w c txid
                       = Inr (failure ''integer division result too large for a float''))"
    proof (cases "round_double (of_int T / 100)")
      case (Fin y)
      then have "int_truediv T 100 = Inr (Fin y)" by (simp add: int_truediv_100)
      then have "\<exists>d. check_payment_status w c txid = Inr (PDict d)
                          \<and> map_of d ''success'' = Some (PBool True)
                          \<and> map_of d ''amount'' = Some (PFloat (Fin y))"
        by (simp add: cps status_result_orders [OF assms(5)] ra bind_exc_simps)
      with Fin quotient_error [OF nz Fin] show ?thesis by blast
    next
      case PosInf
      then have "int_truediv T 100
                   = Inl (Exc OverflowError ''integer division result too large for a float'')"
        by (simp add: int_truediv_100)
      with PosInf show ?thesis
        by (simp add: cps status_result_orders [OF assms(5)] ra bind_exc_simps)
    next
      case NegInf
      then have "int_truediv T 100
                   = Inl (Exc OverflowError ''integer division result too large for a float'')"
        by (simp add: int_truediv_100)
      with NegInf show ?thesis
        by (simp add: cps status_result_orders [OF assms(5)] ra bind_exc_simps)
    next
      case NaN
      then have "int_truediv T 100
                   = Inl (Exc OverflowError ''integer division result too large for a float'')"
        by (simp add: int_truediv_100)
      with NaN show ?thesis
        by (simp add: cps status_result_orders [OF assms(5)] ra bind_exc_simps)
    qed
  }
qed

theorem reported_amount_is_total_over_100_witness:
  "check_payment_status (sample_world (respond 200 status_body)) sample_client ''tr_1''
     = Inr (PDict sample_status)
   \<and> map_of sample_status ''amount'' = Some (PFloat float_19_90)
   \<and> round_double (199 / 10) = float_19_90"
proof -
  let ?w = "sample_world (respond 200 status_body)"
  let ?orders = "[(''status'', PStr ''paid''), (''total'', PInt 1990),
                  (''paymentMethod'', PStr ''pix'')]"
  let ?body = "[(''orders'', PDict ?orders)]"
  have get: "http_get ?w (API_URL @ ''/transactions/'' @ ''tr_1'') (get_headers sample_client)
               = Inr (respond 200 status_body)"
    by (simp add: sample_world_def)
  have code: "status_code (respond 200 status_body) \<noteq> 404"
    and okr: "ok (respond 200 status_body)"
    and js: "json (respond 200 status_body) = Inr (PDict ?body)"
    by (simp_all add: respond_def ok_def status_body_def)
  have ord: "dict_get ?body ''orders'' (PDict []) = PDict ?orders"
    by (simp add: dict_get_def)
  have tot: "map_of ?orders ''total'' = Some (PInt 1990) \<and> (1990::int) \<noteq> 0"
    by simp
  have run: "check_payment_status ?w sample_client ''tr_1'' = Inr (PDict sample_status)"
    using get code okr
    by (simp add: check_payment_status_cases respond_def sample_status_result)
  from reported_amount_is_total_over_100 [OF get code okr js ord]
  have "\<forall>T. map_of ?orders ''total'' = Some (PInt T) \<and> T \<noteq> 0
           \<longrightarrow> (\<exists>y. round_double (of_int T / 100) = Fin y
                    \<and> \<bar>y - of_int T / 100\<bar> \<le> \<bar>of_int T / 100\<bar> / 2 ^ 53
                    \<and> (\<exists>d. check_payment_status ?w sample_client ''tr_1'' = Inr (PDict d)
                          \<and> map_of d ''success'' = Some (PBool True)
                          \<and> map_of d ''amount'' = Some (PFloat (Fin y))))
               \<or> ((\<forall>y. round_double (of_int T / 100) \<noteq> Fin y)
                   \<and> check_payment_status ?w sample_client ''tr_1''
                       = Inr (failure ''integer division result too large for a float''))"
    by (rule conjunct2)
  from this [rule_format, OF tot]
  have disj: "(\<exists>y. round_double (of_int (1990::int) / 100) = Fin y
                    \<and> \<bar>y - of_int (1990::int) / 100\<bar> \<le> \<bar>of_int (1990::int) / 100\<bar> / 2 ^ 53
                    \<and> (\<exists>d. check_payment_status ?w sample_client ''tr_1'' = Inr (PDict d)
                          \<and> map_of d ''success'' = Some (PBool True)
                          \<and> map_of d ''amount'' = Some (PFloat (Fin y))))
               \<or> ((\<forall>y. round_double (of_int (1990::int) / 100) \<noteq> Fin y)
                   \<and> check_payment_status ?w sample_client ''tr_1''
                       = Inr (failure ''integer division result too large for a float''))" .
  have fin: "round_double (of_int (1990::int) / 100) = float_19_90"
    using literal_19_90 by simp
  from fin [unfolded float_19_90_def]
  have "\<exists>y. round_double (of_int (1990::int) / 100) = Fin y"
    by (rule exI)
  with disj obtain y d where y: "round_double (of_int (1990::int) / 100) = Fin y"
    and d: "check_payment_status ?w sample_client ''tr_1'' = Inr (PDict d)"
      "map_of d ''amount'' = Some (PFloat (Fin y))"
    by blast
  from d(1) run have "d = sample_status" by simp
  with d(2) y fin have "map_of sample_status ''amount'' = Some (PFloat float_19_90)"
    by simp
  with run literal_19_90 show ?thesis by (intro conjI)
qed

end
